theory Spec2Isabelle
  imports Complex_Main "HOL-Library.Multiset"
begin

section \<open>Result vocabulary (runtest.py)\<close>

text \<open>
  The test result constants of \<^verbatim>\<open>Lib/test/libregrtest/runtest.py\<close>, lines 15 to 21.
  They are plain Python integers, and travel through JSON as integers.
\<close>

definition PASSED :: int where "PASSED = 1"
definition FAILED :: int where "FAILED = 0"
definition ENV_CHANGED :: int where "ENV_CHANGED = - 1"
definition SKIPPED :: int where "SKIPPED = - 2"
definition RESOURCE_DENIED :: int where "RESOURCE_DENIED = - 3"
definition INTERRUPTED :: int where "INTERRUPTED = - 4"
definition CHILD_ERROR :: int where "CHILD_ERROR = - 5"

lemmas status_defs =
  PASSED_def FAILED_def ENV_CHANGED_def SKIPPED_def RESOURCE_DENIED_def
  INTERRUPTED_def CHILD_ERROR_def

text \<open>
  The second component of a result tuple is dynamically typed in the source: a float
  (\<^verbatim>\<open>test_time\<close>) in what \<^verbatim>\<open>runtest_inner\<close> returns, a string in the tuples that
  \<^verbatim>\<open>run_tests_slave\<close> and \<^verbatim>\<open>_runtest\<close> build themselves. Durations are idealised as
  reals: the code only compares them with a threshold.
\<close>

datatype pyval = Num real | Str string

type_synonym result = "int \<times> pyval"

fun is_numeric :: "pyval \<Rightarrow> bool" where
  "is_numeric (Num _) = True"
| "is_numeric (Str _) = False"

text \<open>The exceptions the modelled code raises, catches or lets through.\<close>

datatype exn =
    StopIteration
  | KeyboardInterrupt
  | TypeError
  | Exception string

section \<open>Python string methods used by the worker\<close>

text \<open>
  Text is modelled as \<^typ>\<open>string\<close>, each character standing for the code point of
  the same number (so the model covers text in the range 0 to 255). \<^verbatim>\<open>str.strip\<close>,
  \<^verbatim>\<open>str.rstrip\<close> without argument remove the characters for which \<^verbatim>\<open>str.isspace\<close>
  holds; in this range they are 9 to 13, 28 to 32, 133 and 160.
\<close>

definition isspace :: "char \<Rightarrow> bool" where
  "isspace c =
     (let n = (of_char c :: nat)
      in (9 \<le> n \<and> n \<le> 13) \<or> (28 \<le> n \<and> n \<le> 32) \<or> n = 133 \<or> n = 160)"

definition newline :: char where
  "newline = CHR 0x0A"

definition lstrip :: "string \<Rightarrow> string" where
  "lstrip s = dropWhile isspace s"

definition rstrip :: "string \<Rightarrow> string" where
  "rstrip s = rev (dropWhile isspace (rev s))"

definition strip :: "string \<Rightarrow> string" where
  "strip s = rstrip (lstrip s)"

text \<open>
  \<^verbatim>\<open>s.rpartition("\n")\<close>: split at the last newline into (head, separator, tail);
  without a newline the result is \<^verbatim>\<open>('', '', s)\<close>.
\<close>

definition rpartition_newline :: "string \<Rightarrow> string \<times> string \<times> string" where
  "rpartition_newline s =
     (if newline \<in> set s
      then (rev (tl (dropWhile (\<lambda>c. c \<noteq> newline) (rev s))),
            [newline],
            rev (takeWhile (\<lambda>c. c \<noteq> newline) (rev s)))
      else ([], [], s))"

text \<open>\<^verbatim>\<open>str(n)\<close> for an integer, as \<^verbatim>\<open>"%s" % retcode\<close> formats it.\<close>

definition digit_char :: "nat \<Rightarrow> char" where
  "digit_char d = ''0123456789'' ! d"

fun str_nat :: "nat \<Rightarrow> string" where
  "str_nat n = (if n < 10 then [digit_char n] else str_nat (n div 10) @ [digit_char (n mod 10)])"

declare str_nat.simps [simp del]

definition str_int :: "int \<Rightarrow> string" where
  "str_int i = (if i < 0 then CHR ''-'' # str_nat (nat (- i)) else str_nat (nat i))"

text \<open>\<^verbatim>\<open>', '.join(xs)\<close>.\<close>

fun join_comma :: "string list \<Rightarrow> string" where
  "join_comma [] = []"
| "join_comma [x] = x"
| "join_comma (x # y # ys) = x @ '', '' @ join_comma (y # ys)"

section \<open>The work queue: MultiprocessIterator\<close>

text \<open>
  \<^verbatim>\<open>MultiprocessIterator\<close> (runtest_mp.py, lines 82 to 98): the flag \<^verbatim>\<open>interrupted\<close>
  and the underlying iterator \<^verbatim>\<open>tests\<close>, here the list of the units it has not yielded
  yet. \<^verbatim>\<open>__next__\<close> runs under the lock, so it is one atomic transition of the record:
  it returns the unit or the exception, and the new state.
\<close>

record MultiprocessIterator =
  interrupted :: bool
  tests :: "string list"

definition MultiprocessIterator_init :: "string list \<Rightarrow> MultiprocessIterator" where
  "MultiprocessIterator_init ts = \<lparr>interrupted = False, tests = ts\<rparr>"

definition MultiprocessIterator_next ::
  "MultiprocessIterator \<Rightarrow> (exn + string) \<times> MultiprocessIterator" where
  "MultiprocessIterator_next q =
     (if interrupted q then (Inl StopIteration, q)
      else (case tests q of
              [] \<Rightarrow> (Inl StopIteration, q)
            | t # ts \<Rightarrow> (Inr t, q\<lparr>tests := ts\<rparr>)))"


section \<open>The worker: MultiprocessThread\<close>

text \<open>
  What the modelled code calls and this repository's files under study do not define:
  \<^item> \<^verbatim>\<open>run_test_in_subprocess\<close> spawns the child and returns its exit code, stdout and
    stderr (or raises); the child is outside the model, so its answer for a unit is a
    parameter;
  \<^item> \<^verbatim>\<open>json.loads\<close>, applied to the last line of the child's stdout; \<open>Inr (ok, v)\<close> is
    a decoded two-element record (an integer and a number or a string, all that
    \<^verbatim>\<open>run_tests_slave\<close> writes), \<open>Inl e\<close> is \<^verbatim>\<open>json.loads\<close> raising;
  \<^item> \<^verbatim>\<open>time.monotonic()\<close> as read when a unit is dispatched;
  \<^item> the float formats \<^verbatim>\<open>'%.0f'\<close> and \<^verbatim>\<open>'{}'.format\<close>.
\<close>

record externals =
  run_test_in_subprocess :: "string \<Rightarrow> exn + (int \<times> string \<times> string)"
  json_loads :: "string \<Rightarrow> exn + result"
  monotonic_at_dispatch :: "string \<Rightarrow> real"
  format_0f :: "real \<Rightarrow> string"
  format_float :: "real \<Rightarrow> string"

text \<open>
  An entry of the output queue: the tuple \<^verbatim>\<open>(test, stdout, stderr, result)\<close>, or
  \<^verbatim>\<open>(None, None, None, None)\<close>.
\<close>

datatype item = NoResult | Item string string string result

text \<open>
  The fields of a \<^verbatim>\<open>MultiprocessThread\<close> that change. \<^verbatim>\<open>start_time\<close> is \<^verbatim>\<open>None\<close>
  in Python until the first dispatch; it is only read while \<^verbatim>\<open>current_test\<close> is set,
  and line 118 assigns it before line 119 sets \<^verbatim>\<open>current_test\<close>, so the initial value
  is never read and is 0 here. \<^verbatim>\<open>alive\<close> is the state of the underlying
  \<^verbatim>\<open>threading.Thread\<close>, the one \<^verbatim>\<open>join()\<close> waits for: true from \<^verbatim>\<open>start()\<close> until
  \<^verbatim>\<open>run\<close> returns or raises.
\<close>

record thread =
  current_test :: "string option"
  start_time :: real
  alive :: bool

definition thread_init :: thread where
  "thread_init = \<lparr>current_test = None, start_time = 0, alive = True\<rparr>"

text \<open>What the worker threads share: the work queue \<^verbatim>\<open>pending\<close> and the queue \<^verbatim>\<open>output\<close>.\<close>

record shared =
  pending :: MultiprocessIterator
  output_queue :: "item list"

definition put :: "item \<Rightarrow> shared \<Rightarrow> shared" where
  "put it sh = sh\<lparr>output_queue := output_queue sh @ [it]\<rparr>"

text \<open>
  \<^verbatim>\<open>_runtest\<close>, lines 111 to 119: claim a unit. \<open>None\<close> is the early \<^verbatim>\<open>return True\<close>
  after \<^verbatim>\<open>StopIteration\<close>; \<open>Some t\<close> is the unit now being dispatched.
\<close>

definition runtest_claim ::
  "externals \<Rightarrow> thread \<times> shared \<Rightarrow> string option \<times> thread \<times> shared" where
  "runtest_claim E = (\<lambda>(w, sh).
     (case MultiprocessIterator_next (pending sh) of
        (Inl _, q) \<Rightarrow> (None, w, put NoResult (sh\<lparr>pending := q\<rparr>))
      | (Inr t, q) \<Rightarrow>
          (Some t,
           w\<lparr>start_time := monotonic_at_dispatch E t, current_test := Some t\<rparr>,
           sh\<lparr>pending := q\<rparr>)))"

text \<open>
  Lines 125 to 139: what is put on the output queue for the child's exit code, stdout
  and stderr, and the value \<^verbatim>\<open>_runtest\<close> returns (\<open>True\<close> stops the worker's loop).
\<close>

definition publish ::
  "externals \<Rightarrow> string \<Rightarrow> int \<times> string \<times> string \<Rightarrow> exn + (item \<times> bool)" where
  "publish E test = (\<lambda>(retcode, stdout, stderr).
     (let (stdout', sep, result) = rpartition_newline (strip stdout)
      in if retcode \<noteq> 0
         then Inr (Item test (rstrip stdout') (rstrip stderr)
                     (CHILD_ERROR, Str (''Exit code '' @ str_int retcode)), True)
         else if result = [] then Inr (NoResult, True)
         else (case json_loads E result of
                 Inl e \<Rightarrow> Inl e
               | Inr r \<Rightarrow> Inr (Item test (rstrip stdout') (rstrip stderr) r, False))))"

text \<open>
  Lines 117 to 139: wait for the child of unit \<open>t\<close>, reset \<^verbatim>\<open>current_test\<close> (the
  \<^verbatim>\<open>finally\<close> clause), publish.
\<close>

definition runtest_complete ::
  "externals \<Rightarrow> string \<Rightarrow> thread \<times> shared \<Rightarrow> (exn + bool) \<times> thread \<times> shared" where
  "runtest_complete E t = (\<lambda>(w, sh).
     (let w' = w\<lparr>current_test := None\<rparr>
      in case run_test_in_subprocess E t of
           Inl e \<Rightarrow> (Inl e, w', sh)
         | Inr child \<Rightarrow>
             (case publish E t child of
                Inl e \<Rightarrow> (Inl e, w', sh)
              | Inr (it, stop) \<Rightarrow> (Inr stop, w', put it sh))))"

text \<open>\<^verbatim>\<open>MultiprocessThread._runtest\<close>, whole.\<close>

definition MultiprocessThread_runtest ::
  "externals \<Rightarrow> thread \<times> shared \<Rightarrow> (exn + bool) \<times> thread \<times> shared" where
  "MultiprocessThread_runtest E s =
     (case runtest_claim E s of
        (None, s') \<Rightarrow> (Inr True, s')
      | (Some t, s') \<Rightarrow> runtest_complete E t s')"

text \<open>
  \<^verbatim>\<open>MultiprocessThread.run\<close> for a worker that runs alone (nothing else touches the
  queues meanwhile): the loop, and the handler that publishes \<^verbatim>\<open>(None, None, None, None)\<close>
  and re-raises. The first component is the exception the thread died of, if any.
\<close>

function MultiprocessThread_run ::
  "externals \<Rightarrow> thread \<times> shared \<Rightarrow> exn option \<times> thread \<times> shared" where
  "MultiprocessThread_run E s =
     (case MultiprocessThread_runtest E s of
        (Inl e, w, sh) \<Rightarrow> (Some e, w\<lparr>alive := False\<rparr>, put NoResult sh)
      | (Inr stop, w, sh) \<Rightarrow>
          (if stop then (None, w\<lparr>alive := False\<rparr>, sh) else MultiprocessThread_run E (w, sh)))"
  by pat_completeness auto

lemma publish_pending [simp]: "pending (put it sh) = pending sh"
  by (simp add: put_def)

lemma runtest_continue_shrinks:
  assumes "MultiprocessThread_runtest E (w, sh) = (Inr False, w', sh')"
  shows "length (tests (pending sh')) < length (tests (pending sh))"
  using assms
  by (auto simp: MultiprocessThread_runtest_def runtest_claim_def runtest_complete_def
        MultiprocessIterator_next_def Let_def
      split: prod.splits sum.splits option.splits list.splits if_splits)

termination MultiprocessThread_run
proof (relation "measure (\<lambda>(E, w, sh). length (tests (pending sh)))")
  show "wf (measure (\<lambda>(E, w, sh). length (tests (pending sh))))" by simp
next
  fix E :: externals and s :: "thread \<times> shared" and r stop w' sh' and rest :: "thread \<times> shared"
  assume a: "(r, rest) = MultiprocessThread_runtest E s" "r = Inr stop"
    "(w', sh') = rest" "\<not> stop"
  obtain w sh where s: "s = (w, sh)" by (cases s)
  from a s have "MultiprocessThread_runtest E (w, sh) = (Inr False, w', sh')" by simp
  from runtest_continue_shrinks [OF this]
  show "((E, w', sh'), E, s) \<in> measure (\<lambda>(E, w, sh). length (tests (pending sh)))"
    by (simp add: s)
qed

declare MultiprocessThread_run.simps [simp del]

section \<open>The child: runtest_inner and run_tests_slave\<close>

text \<open>
  \<^verbatim>\<open>runtest_inner\<close> (runtest.py, lines 135 to 195) imports and runs the test module
  inside a \<^verbatim>\<open>try\<close>. What the module does is outside the model; \<open>body\<close> lists how the
  \<^verbatim>\<open>try\<close> block can end: one of the exceptions the handlers tell apart, or normally
  with \<^verbatim>\<open>refleak\<close>, \<^verbatim>\<open>environment.changed\<close> and the measured time.
  \<^verbatim>\<open>test_time\<close> is 0.0 until the last statement of the block assigns it.
\<close>

datatype body =
    RaisesResourceDenied
  | RaisesSkipTest
  | RaisesKeyboardInterrupt
  | RaisesTestFailed
  | RaisesOther
  | Completes bool bool real

fun runtest_inner :: "body \<Rightarrow> exn + result" where
  "runtest_inner RaisesResourceDenied = Inr (RESOURCE_DENIED, Num 0)"
| "runtest_inner RaisesSkipTest = Inr (SKIPPED, Num 0)"
| "runtest_inner RaisesKeyboardInterrupt = Inl KeyboardInterrupt"
| "runtest_inner RaisesTestFailed = Inr (FAILED, Num 0)"
| "runtest_inner RaisesOther = Inr (FAILED, Num 0)"
| "runtest_inner (Completes refleak changed test_time) =
     (if refleak then Inr (FAILED, Num test_time)
      else if changed then Inr (ENV_CHANGED, Num test_time)
      else Inr (PASSED, Num test_time))"

text \<open>\<^verbatim>\<open>str(e)\<close> of a caught exception.\<close>

fun exn_str :: "exn \<Rightarrow> string" where
  "exn_str (Exception msg) = msg"
| "exn_str _ = []"

text \<open>
  \<^verbatim>\<open>run_tests_slave\<close>, lines 68 to 78, for an outcome of \<^verbatim>\<open>runtest\<close> (a result or an
  exception): the result tuple it settles on.
\<close>

fun slave_result :: "exn + result \<Rightarrow> result" where
  "slave_result (Inr result) = result"
| "slave_result (Inl KeyboardInterrupt) = (INTERRUPTED, Str [])"
| "slave_result (Inl e) = (CHILD_ERROR, Str (exn_str e))"


section \<open>The orchestrator: run_tests_multiprocess\<close>

definition PROGRESS_MIN_TIME :: real where "PROGRESS_MIN_TIME = 30"
definition PROGRESS_UPDATE :: real where "PROGRESS_UPDATE = 30"

text \<open>The fields of \<^verbatim>\<open>regrtest.ns\<close> that the function reads.\<close>

record namespace =
  use_mp :: nat
  pgo :: bool

text \<open>
  The state the draining thread owns: the locals \<^verbatim>\<open>finished\<close> and \<^verbatim>\<open>test_index\<close>, the
  flag \<^verbatim>\<open>regrtest.interrupted\<close>, and what was written: the lines printed to stdout and
  to stderr, and the calls of \<^verbatim>\<open>regrtest.display_progress\<close>. The Run Accumulator is
  \<open>accumulated\<close>, the list of the (unit, result) pairs handed to
  \<^verbatim>\<open>regrtest.accumulate_result\<close>, in order; the spec's lists by kind are its projections.
\<close>

record orchestrator =
  accumulated :: "(string \<times> result) list"
  finished :: nat
  test_index :: nat
  regrtest_interrupted :: bool
  displayed :: "(nat \<times> string) list"
  printed :: "string list"
  printed_err :: "string list"

definition orchestrator_init :: orchestrator where
  "orchestrator_init =
     \<lparr>accumulated = [], finished = 0, test_index = 1, regrtest_interrupted = False,
      displayed = [], printed = [], printed_err = []\<rparr>"

text \<open>
  Modelled from the spec: \<^verbatim>\<open>regrtest.accumulate_result(test, result)\<close>, a method of the
  \<^verbatim>\<open>Regrtest\<close> class that the files do not contain. The spec has the outcome merged into
  the Run Accumulator, append-only: the pair is appended to \<open>accumulated\<close>.
\<close>

definition accumulate_result :: "string \<Rightarrow> result \<Rightarrow> orchestrator \<Rightarrow> orchestrator" where
  "accumulate_result test result st = st\<lparr>accumulated := accumulated st @ [(test, result)]\<rparr>"

definition print :: "string \<Rightarrow> orchestrator \<Rightarrow> orchestrator" where
  "print line st = st\<lparr>printed := printed st @ [line]\<rparr>"

definition print_err :: "string \<Rightarrow> orchestrator \<Rightarrow> orchestrator" where
  "print_err line st = st\<lparr>printed_err := printed_err st @ [line]\<rparr>"

text \<open>
  Modelled from the spec: \<^verbatim>\<open>regrtest.display_progress(test_index, text)\<close>, of the same
  class; it prints the progress line, here kept apart from the other printed lines.
\<close>

definition display_progress :: "nat \<Rightarrow> string \<Rightarrow> orchestrator \<Rightarrow> orchestrator" where
  "display_progress i text st = st\<lparr>displayed := displayed st @ [(i, text)]\<rparr>"

text \<open>\<^verbatim>\<open>get_running\<close>, lines 160 to 169; \<open>now\<close> is the reading of \<^verbatim>\<open>time.monotonic()\<close>.\<close>

fun get_running :: "externals \<Rightarrow> real \<Rightarrow> thread list \<Rightarrow> string list" where
  "get_running E now [] = []"
| "get_running E now (worker # workers) =
     (case current_test worker of
        None \<Rightarrow> get_running E now workers
      | Some ct \<Rightarrow>
          if ct = [] then get_running E now workers
          else (let dt = now - start_time worker
                in if dt \<ge> PROGRESS_MIN_TIME
                   then (ct @ '' ('' @ format_0f E dt @ '' sec)'') # get_running E now workers
                   else get_running E now workers))"

text \<open>Lines 178 to 182: \<^verbatim>\<open>output.get\<close> timed out with \<^verbatim>\<open>queue.Empty\<close>.\<close>

definition drain_timeout ::
  "externals \<Rightarrow> namespace \<Rightarrow> real \<Rightarrow> thread list \<Rightarrow> orchestrator \<Rightarrow> orchestrator" where
  "drain_timeout E ns now workers st =
     (let running = get_running E now workers
      in if running \<noteq> [] \<and> \<not> pgo ns
         then print (''running: '' @ join_comma running) st
         else st)"

text \<open>\<^verbatim>\<open>'{}'.format(v)\<close> for the second component of a result.\<close>

fun format_pyval :: "externals \<Rightarrow> pyval \<Rightarrow> string" where
  "format_pyval E (Str s) = s"
| "format_pyval E (Num x) = format_float E x"

text \<open>
  Lines 184 to 213: one item received from the output queue. The first component is
  the exception that leaves the loop body, if any, the second the state at that point.
  Comparing a string \<^verbatim>\<open>test_time\<close> with \<^verbatim>\<open>PROGRESS_MIN_TIME\<close> raises \<^verbatim>\<open>TypeError\<close> in
  Python; \<^verbatim>\<open>and\<close> evaluates it only when \<^verbatim>\<open>ok\<close> is neither \<^verbatim>\<open>CHILD_ERROR\<close> nor
  \<^verbatim>\<open>INTERRUPTED\<close>.
\<close>

definition drain_item ::
  "externals \<Rightarrow> namespace \<Rightarrow> real \<Rightarrow> thread list \<Rightarrow> item \<Rightarrow> orchestrator
     \<Rightarrow> exn option \<times> orchestrator" where
  "drain_item E ns now workers it st =
     (case it of
        NoResult \<Rightarrow> (None, st\<lparr>finished := finished st + 1\<rparr>)
      | Item test stdout stderr result \<Rightarrow>
          (let st1 = accumulate_result test result st;
               (ok, test_time) = result
           in if ok \<noteq> CHILD_ERROR \<and> ok \<noteq> INTERRUPTED \<and> \<not> is_numeric test_time
              then (Some TypeError, st1)
              else
                (let text1 =
                       (case test_time of
                          Num x \<Rightarrow>
                            if ok \<noteq> CHILD_ERROR \<and> ok \<noteq> INTERRUPTED
                                 \<and> x \<ge> PROGRESS_MIN_TIME \<and> \<not> pgo ns
                            then test @ '' ('' @ format_0f E x @ '' sec)''
                            else test
                        | Str _ \<Rightarrow> test);
                     running = get_running E now workers;
                     text2 = (if running \<noteq> [] \<and> \<not> pgo ns
                              then text1 @ '' -- running: '' @ join_comma running
                              else text1);
                     st2 = display_progress (test_index st1) text2 st1;
                     st3 = (if stdout \<noteq> [] then print stdout st2 else st2);
                     st4 = (if stderr \<noteq> [] \<and> \<not> pgo ns then print_err stderr st3 else st3)
                 in if ok = INTERRUPTED then (Some KeyboardInterrupt, st4)
                    else if ok = CHILD_ERROR
                    then (Some (Exception (''Child error on '' @ test @ '': ''
                                  @ format_pyval E test_time)), st4)
                    else (None, st4\<lparr>test_index := test_index st4 + 1\<rparr>))))"

text \<open>
  Lines 219 to 222, after the loop: the message about the units still running.
\<close>

definition waiting_message :: "thread list \<Rightarrow> orchestrator \<Rightarrow> orchestrator" where
  "waiting_message workers st =
     (let running = filter (\<lambda>t. t \<noteq> []) (concat (map (\<lambda>w. case current_test w of None \<Rightarrow> [] | Some t \<Rightarrow> [t]) workers))
      in if running \<noteq> [] then print (''Waiting for '' @ join_comma running) st else st)"

subsection \<open>The threads together\<close>

text \<open>
  The worker threads and the draining thread run concurrently on the two queues. The
  locks of \<^verbatim>\<open>MultiprocessIterator\<close> and of \<^verbatim>\<open>queue.Queue\<close> make \<^verbatim>\<open>next\<close>, \<^verbatim>\<open>put\<close> and
  \<^verbatim>\<open>get\<close> atomic, so a run is an interleaving of these steps:
  \<^item> \<open>Claim i\<close>: worker \<open>i\<close>, between two units, executes lines 111 to 119;
  \<^item> \<open>Complete i\<close>: the child of worker \<open>i\<close> has exited; the worker executes lines 121
    to 139 and the loop test of \<^verbatim>\<open>run\<close> (or its exception handler);
  \<^item> \<open>Get now\<close>: the draining thread receives the oldest item and executes lines 184
    to 213, and the \<^verbatim>\<open>KeyboardInterrupt\<close> handler with lines 219 to 222 if the body raised it;
  \<^item> \<open>Timeout now\<close>: \<^verbatim>\<open>output.get\<close> raised \<^verbatim>\<open>queue.Empty\<close>, lines 178 to 182;
  \<^item> \<open>Leave\<close>: the loop condition of line 175 is false; lines 219 to 222;
  \<^item> \<open>Join\<close>: lines 223 and 224 return, which they do once no worker is alive.
  An operator's interrupt of the draining thread itself is not part of the model.
\<close>

datatype phase = Draining | Joining | Returned | Raised exn

datatype action = Claim nat | Complete nat | Get real | Timeout real | Leave | Join

record system =
  queues :: shared
  workers :: "thread list"
  regrtest :: orchestrator
  phase :: phase

definition start :: "namespace \<Rightarrow> string list \<Rightarrow> system" where
  "start ns ts =
     \<lparr>queues = \<lparr>pending = MultiprocessIterator_init ts, output_queue = []\<rparr>,
      workers = replicate (use_mp ns) thread_init,
      regrtest = orchestrator_init,
      phase = Draining\<rparr>"

text \<open>Lines 214 to 222: the handler of \<^verbatim>\<open>KeyboardInterrupt\<close>, and the lines after it.\<close>

definition on_keyboard_interrupt :: "system \<Rightarrow> system" where
  "on_keyboard_interrupt s =
     (let q = (queues s)\<lparr>pending := (pending (queues s))\<lparr>interrupted := True\<rparr>\<rparr>;
          st = print [] ((regrtest s)\<lparr>regrtest_interrupted := True\<rparr>)
      in s\<lparr>queues := q, regrtest := waiting_message (workers s) st, phase := Joining\<rparr>)"

definition step :: "externals \<Rightarrow> namespace \<Rightarrow> action \<Rightarrow> system \<Rightarrow> system option" where
  "step E ns a s =
     (case a of
        Claim i \<Rightarrow>
          if i < length (workers s) \<and> alive (workers s ! i) \<and> current_test (workers s ! i) = None
          then (case runtest_claim E (workers s ! i, queues s) of
                  (None, w, sh) \<Rightarrow>
                    Some (s\<lparr>queues := sh, workers := (workers s)[i := w\<lparr>alive := False\<rparr>]\<rparr>)
                | (Some t, w, sh) \<Rightarrow>
                    Some (s\<lparr>queues := sh, workers := (workers s)[i := w]\<rparr>))
          else None
      | Complete i \<Rightarrow>
          if i < length (workers s) \<and> alive (workers s ! i)
          then (case current_test (workers s ! i) of
                  None \<Rightarrow> None
                | Some t \<Rightarrow>
                    (case runtest_complete E t (workers s ! i, queues s) of
                       (Inl e, w, sh) \<Rightarrow>
                         Some (s\<lparr>queues := put NoResult sh,
                                 workers := (workers s)[i := w\<lparr>alive := False\<rparr>]\<rparr>)
                     | (Inr stop, w, sh) \<Rightarrow>
                         Some (s\<lparr>queues := sh,
                                 workers := (workers s)[i := w\<lparr>alive := \<not> stop\<rparr>]\<rparr>)))
          else None
      | Get now \<Rightarrow>
          if phase s = Draining \<and> finished (regrtest s) < use_mp ns
          then (case output_queue (queues s) of
                  [] \<Rightarrow> None
                | it # rest \<Rightarrow>
                    (let (e, st) = drain_item E ns now (workers s) it (regrtest s);
                         s' = s\<lparr>queues := (queues s)\<lparr>output_queue := rest\<rparr>, regrtest := st\<rparr>
                     in case e of
                          None \<Rightarrow> Some s'
                        | Some KeyboardInterrupt \<Rightarrow> Some (on_keyboard_interrupt s')
                        | Some x \<Rightarrow> Some (s'\<lparr>phase := Raised x\<rparr>)))
          else None
      | Timeout now \<Rightarrow>
          if phase s = Draining \<and> finished (regrtest s) < use_mp ns
               \<and> output_queue (queues s) = []
          then Some (s\<lparr>regrtest := drain_timeout E ns now (workers s) (regrtest s)\<rparr>)
          else None
      | Leave \<Rightarrow>
          if phase s = Draining \<and> \<not> finished (regrtest s) < use_mp ns
          then Some (s\<lparr>regrtest := waiting_message (workers s) (regrtest s), phase := Joining\<rparr>)
          else None
      | Join \<Rightarrow>
          if phase s = Joining \<and> (\<forall>w \<in> set (workers s). \<not> alive w)
          then Some (s\<lparr>phase := Returned\<rparr>)
          else None)"

fun exec :: "externals \<Rightarrow> namespace \<Rightarrow> action list \<Rightarrow> system \<Rightarrow> system option" where
  "exec E ns [] s = Some s"
| "exec E ns (a # as) s =
     (case step E ns a s of None \<Rightarrow> None | Some s' \<Rightarrow> exec E ns as s')"

section \<open>Auxiliary notions and a sample environment\<close>

text \<open>
  The third component of \<^verbatim>\<open>stdout.strip().rpartition("\n")\<close>, which line 125 binds to
  \<^verbatim>\<open>result\<close>: the last line of the child's stdout.
\<close>

definition last_line :: "string \<Rightarrow> string" where
  "last_line stdout = snd (snd (rpartition_newline (strip stdout)))"


text \<open>
  A sample environment: six kinds of child (passing, failing, crashing with exit code
  1, silent, interrupted, and one that cannot be spawned), and a decoder for the record
  lines they write, with the encoder that writes them.
\<close>

definition dquote :: char where "dquote = CHR 0x22"

definition example_child :: "string \<Rightarrow> exn + (int \<times> string \<times> string)" where
  "example_child t =
     (if t = ''test_pass'' then Inr (0, ''ok'' @ [newline, newline] @ ''[1, 0.5]'' @ [newline], [])
      else if t = ''test_fail''
      then Inr (0, ''  a'' @ [newline] @ ''[0, 1.23]'' @ [newline], ''warning'' @ [newline])
      else if t = ''test_crash'' then Inr (1, ''boom'', ''Fatal'' @ [newline])
      else if t = ''test_silent'' then Inr (0, [], [])
      else if t = ''test_interrupt''
      then Inr (0, [newline] @ ''[-4, '' @ [dquote, dquote] @ '']'' @ [newline], [])
      else Inl (Exception ''OSError''))"

definition example_loads :: "string \<Rightarrow> exn + result" where
  "example_loads line =
     (if line = ''[1, 0.5]'' then Inr (PASSED, Num 0.5)
      else if line = ''[0, 1.23]'' then Inr (FAILED, Num 1.23)
      else if line = ''[-4, '' @ [dquote, dquote] @ '']'' then Inr (INTERRUPTED, Str [])
      else if line = ''[-5, '' @ [dquote] @ ''boom'' @ [dquote] @ '']''
      then Inr (CHILD_ERROR, Str ''boom'')
      else Inl (Exception ''JSONDecodeError''))"


definition example_externals :: externals where
  "example_externals =
     \<lparr>run_test_in_subprocess = example_child, json_loads = example_loads,
      monotonic_at_dispatch = (\<lambda>t. if t = ''test_pass'' then 120 else 100),
      format_0f = (\<lambda>x. str_int (round x)),
      format_float = (\<lambda>x. str_int (round x))\<rparr>"

definition example_ns :: namespace where
  "example_ns = \<lparr>use_mp = 2, pgo = False\<rparr>"

text \<open>Two workers, each waiting for its child.\<close>

definition example_dispatched :: system where
  "example_dispatched =
     \<lparr>queues = \<lparr>pending = \<lparr>interrupted = False, tests = []\<rparr>, output_queue = []\<rparr>,
      workers = [\<lparr>current_test = Some ''test_crash'', start_time = 100, alive = True\<rparr>,
                 \<lparr>current_test = Some ''test_pass'', start_time = 120, alive = True\<rparr>],
      regrtest = orchestrator_init,
      phase = Draining\<rparr>"

text \<open>The first child has crashed, the second is still running.\<close>

definition example_crashed :: system where
  "example_crashed =
     \<lparr>queues = \<lparr>pending = \<lparr>interrupted = False, tests = []\<rparr>,
                output_queue = [Item ''test_crash'' [] ''Fatal'' (CHILD_ERROR, Str ''Exit code 1'')]\<rparr>,
      workers = [\<lparr>current_test = None, start_time = 100, alive = False\<rparr>,
                 \<lparr>current_test = Some ''test_pass'', start_time = 120, alive = True\<rparr>],
      regrtest = orchestrator_init,
      phase = Draining\<rparr>"


text \<open>One worker; the child of \<^verbatim>\<open>test_interrupt\<close> has reported an interrupt.\<close>

definition example_single :: namespace where
  "example_single = \<lparr>use_mp = 1, pgo = False\<rparr>"

definition example_interrupt_published :: system where
  "example_interrupt_published =
     \<lparr>queues = \<lparr>pending = \<lparr>interrupted = False, tests = [''test_pass'']\<rparr>,
                output_queue = [Item ''test_interrupt'' [] [] (INTERRUPTED, Str [])]\<rparr>,
      workers = [\<lparr>current_test = None, start_time = 100, alive = True\<rparr>],
      regrtest = orchestrator_init,
      phase = Draining\<rparr>"


subsection \<open>Where the units are\<close>

text \<open>
  The units named by the items of the output queue, and the units the workers are
  waiting for (their \<^verbatim>\<open>current_test\<close>).
\<close>

fun item_tests :: "item list \<Rightarrow> string list" where
  "item_tests [] = []"
| "item_tests (NoResult # its) = item_tests its"
| "item_tests (Item test stdout stderr result # its) = test # item_tests its"










section \<open>Strings: stripping and splitting the child's stdout\<close>

lemma isspace_newline [simp]: "isspace newline"
  by (simp add: isspace_def newline_def)





lemma strip_all_space: "\<forall>c\<in>set s. isspace c \<Longrightarrow> strip s = []"
proof -
  assume "\<forall>c\<in>set s. isspace c"
  then have "lstrip s = []" by (simp add: lstrip_def)
  then show ?thesis by (simp add: strip_def rstrip_def)
qed

lemma rstrip_last: "rstrip s \<noteq> [] \<Longrightarrow> \<not> isspace (last (rstrip s))"
proof -
  assume a: "rstrip s \<noteq> []"
  then have "dropWhile isspace (rev s) \<noteq> []" by (simp add: rstrip_def)
  then have "\<not> isspace (hd (dropWhile isspace (rev s)))" by (rule hd_dropWhile)
  then show ?thesis using a by (simp add: rstrip_def last_rev)
qed

lemma strip_empty_iff: "strip s = [] \<longleftrightarrow> (\<forall>c\<in>set s. isspace c)"
proof
  assume e: "strip s = []"
  then have "\<forall>c\<in>set (lstrip s). isspace c"
    by (simp add: strip_def rstrip_def dropWhile_eq_Nil_conv)
  moreover have "lstrip s = [] \<or> \<not> isspace (hd (lstrip s))"
    unfolding lstrip_def using hd_dropWhile [of isspace s] by blast
  ultimately have "lstrip s = []" by (cases "lstrip s") auto
  then show "\<forall>c\<in>set s. isspace c" by (simp add: lstrip_def dropWhile_eq_Nil_conv)
qed (rule strip_all_space)



lemma rpartition_tail_empty:
  assumes "snd (snd (rpartition_newline s)) = []"
  shows "s = [] \<or> last s = newline"
proof (cases "newline \<in> set s")
  case False
  with assms show ?thesis by (simp add: rpartition_newline_def)
next
  case True
  then have ne: "rev s \<noteq> []" by auto
  from True assms have "takeWhile (\<lambda>c. c \<noteq> newline) (rev s) = []"
    by (simp add: rpartition_newline_def)
  then have "hd (rev s) = newline" using ne by (cases "rev s") (auto split: if_splits)
  then show ?thesis using ne by (simp add: hd_rev)
qed

lemma last_line_empty_iff: "last_line stdout = [] \<longleftrightarrow> (\<forall>c\<in>set stdout. isspace c)"
proof
  assume "last_line stdout = []"
  then have "strip stdout = [] \<or> last (strip stdout) = newline"
    unfolding last_line_def by (rule rpartition_tail_empty)
  moreover have "strip stdout \<noteq> [] \<Longrightarrow> \<not> isspace (last (strip stdout))"
    unfolding strip_def by (rule rstrip_last)
  ultimately have "strip stdout = []" by (metis isspace_newline)
  then show "\<forall>c\<in>set stdout. isspace c" by (simp add: strip_empty_iff)
next
  assume "\<forall>c\<in>set stdout. isspace c"
  then show "last_line stdout = []"
    by (simp add: last_line_def strip_all_space rpartition_newline_def)
qed




lemma publish_nonzero:
  "retcode \<noteq> 0 \<Longrightarrow>
   publish E test (retcode, stdout, stderr) =
     Inr (Item test (rstrip (fst (rpartition_newline (strip stdout)))) (rstrip stderr)
            (CHILD_ERROR, Str (''Exit code '' @ str_int retcode)), True)"
  by (simp add: publish_def split: prod.splits)

lemma publish_no_result:
  "\<forall>c\<in>set stdout. isspace c \<Longrightarrow> publish E test (0, stdout, stderr) = Inr (NoResult, True)"
  by (simp add: publish_def strip_all_space rpartition_newline_def)

section \<open>The work queue\<close>




section \<open>The worker\<close>

lemma runtest_complete_child:
  assumes "run_test_in_subprocess E t = Inr child"
  shows "runtest_complete E t (w, sh) =
     (case publish E t child of
        Inl e \<Rightarrow> (Inl e, w\<lparr>current_test := None\<rparr>, sh)
      | Inr (it, stop) \<Rightarrow> (Inr stop, w\<lparr>current_test := None\<rparr>, put it sh))"
  using assms by (simp add: runtest_complete_def Let_def)

lemma runtest_claim_unit:
  assumes "\<not> interrupted (pending sh)" and "tests (pending sh) = t # ts"
  shows "runtest_claim E (w, sh) =
     (Some t, w\<lparr>start_time := monotonic_at_dispatch E t, current_test := Some t\<rparr>,
      sh\<lparr>pending := (pending sh)\<lparr>tests := ts\<rparr>\<rparr>)"
  using assms by (simp add: runtest_claim_def MultiprocessIterator_next_def)

lemma runtest_claim_stop:
  assumes "interrupted (pending sh) \<or> tests (pending sh) = []"
  shows "runtest_claim E (w, sh) = (None, w, put NoResult sh)"
  using assms by (auto simp: runtest_claim_def MultiprocessIterator_next_def put_def)


text \<open>
  Claim C2, as stated, fails on the code. A child that exits with code 1 after writing
  the single line \<^verbatim>\<open>boom\<close>: \<^verbatim>\<open>rpartition\<close> has already split the last line off into
  \<^verbatim>\<open>result\<close>, which line 127 overwrites, so the stdout that is published is empty and
  the line is lost; and the diagnostic reads \<^verbatim>\<open>Exit code 1\<close>.
\<close>

theorem crash_loses_last_line:
  "publish example_externals ''test_crash'' (1, ''boom'', ''Fatal'') =
     Inr (Item ''test_crash'' [] ''Fatal'' (CHILD_ERROR, Str ''Exit code 1''), True)"
  by code_simp

text \<open>
  Claim C2, amended. For a child with a nonzero exit code \<open>N\<close>, whatever it printed, the
  worker publishes the unit with the result \<^verbatim>\<open>CHILD_ERROR\<close> (which is not \<^verbatim>\<open>FAILED\<close>)
  and the diagnostic \<^verbatim>\<open>Exit code N\<close>, and stops its loop (\<^verbatim>\<open>_runtest\<close> returns true). With
  it go the captured stderr without trailing white space, and of the captured stdout
  the text before the last newline of the stripped stdout, without trailing white space:
  the last line is not published.
\<close>

theorem nonzero_exit_is_child_error:
  assumes "run_test_in_subprocess E t = Inr (retcode, stdout, stderr)" and "retcode \<noteq> 0"
  shows "runtest_complete E t (w, sh) =
      (Inr True, w\<lparr>current_test := None\<rparr>,
       put (Item t (rstrip (fst (rpartition_newline (strip stdout)))) (rstrip stderr)
              (CHILD_ERROR, Str (''Exit code '' @ str_int retcode))) sh)
    \<and> CHILD_ERROR \<noteq> FAILED"
  using assms
  by (simp add: runtest_complete_child publish_nonzero CHILD_ERROR_def FAILED_def)

theorem nonzero_exit_is_child_error_witness:
  "runtest_complete example_externals ''test_crash'' (thread_init, \<lparr>pending = MultiprocessIterator_init [], output_queue = []\<rparr>) =
      (Inr True, thread_init,
       \<lparr>pending = MultiprocessIterator_init [], output_queue = [Item ''test_crash'' [] ''Fatal''
              (CHILD_ERROR, Str ''Exit code 1'')]\<rparr>)"
proof -
  have c: "run_test_in_subprocess example_externals ''test_crash'' = Inr (1, ''boom'', ''Fatal'' @ [newline])"
    by (simp add: example_externals_def example_child_def)
  have s: "rstrip (fst (rpartition_newline (strip ''boom''))) = []" by code_simp
  have e: "rstrip (''Fatal'' @ [newline]) = ''Fatal''" by code_simp
  have i: "str_int 1 = ''1''" by code_simp
  show ?thesis
    using nonzero_exit_is_child_error [OF c, of thread_init "\<lparr>pending = MultiprocessIterator_init [], output_queue = []\<rparr>"]
    by (simp add: s e [simplified] i put_def thread_init_def)
qed

text \<open>
  Claim C3, as stated, fails on the code: after a child that exits with code 0 and
  prints nothing, \<^verbatim>\<open>_runtest\<close> returns true and the loop of \<^verbatim>\<open>run\<close> ends. The worker
  does not ask for the next unit: \<^verbatim>\<open>test_pass\<close> is still in the queue when the thread
  has finished.
\<close>

theorem silent_child_stops_worker:
  "MultiprocessThread_run example_externals
     (thread_init, \<lparr>pending = MultiprocessIterator_init [''test_silent'', ''test_pass''], output_queue = []\<rparr>) =
   (None, \<lparr>current_test = None, start_time = 100, alive = False\<rparr>,
    \<lparr>pending = \<lparr>interrupted = False, tests = [''test_pass'']\<rparr>, output_queue = [NoResult]\<rparr>)"
  by code_simp

text \<open>
  Claim C3, amended. For a child that exits with code 0 and whose stdout has no last
  line (it is empty or white space only), the worker publishes
  \<^verbatim>\<open>(None, None, None, None)\<close> and nothing else, and its loop ends there: the units
  behind the claimed one stay in the work queue. The orchestrator, on receiving this
  item, adds one to \<^verbatim>\<open>finished\<close> and changes nothing else: nothing is added to the
  accumulator, and \<^verbatim>\<open>test_index\<close> stays.
\<close>

theorem no_result_ends_loop:
  assumes "run_test_in_subprocess E t = Inr (0, stdout, stderr)"
    and "last_line stdout = []"
    and "\<not> interrupted (pending sh)" and "tests (pending sh) = t # ts"
  shows "MultiprocessThread_run E (w, sh) =
      (None,
       w\<lparr>start_time := monotonic_at_dispatch E t, current_test := None, alive := False\<rparr>,
       sh\<lparr>pending := (pending sh)\<lparr>tests := ts\<rparr>, output_queue := output_queue sh @ [NoResult]\<rparr>)
    \<and> drain_item E ns now ws NoResult st = (None, st\<lparr>finished := finished st + 1\<rparr>)"
proof -
  have sp: "\<forall>c\<in>set stdout. isspace c" using assms(2) by (simp add: last_line_empty_iff)
  have "MultiprocessThread_runtest E (w, sh) =
      (Inr True, w\<lparr>start_time := monotonic_at_dispatch E t, current_test := None\<rparr>,
       put NoResult (sh\<lparr>pending := (pending sh)\<lparr>tests := ts\<rparr>\<rparr>))"
    using assms(1,3,4) sp
    by (simp add: MultiprocessThread_runtest_def runtest_claim_unit runtest_complete_child
        publish_no_result)
  then show ?thesis
    by (simp add: MultiprocessThread_run.simps put_def drain_item_def)
qed

theorem no_result_ends_loop_witness:
  "MultiprocessThread_run example_externals
     (thread_init, \<lparr>pending = MultiprocessIterator_init [''test_silent'', ''test_pass''], output_queue = []\<rparr>) =
   (None, \<lparr>current_test = None, start_time = 100, alive = False\<rparr>,
    \<lparr>pending = \<lparr>interrupted = False, tests = [''test_pass'']\<rparr>, output_queue = [NoResult]\<rparr>)
   \<and> drain_item example_externals \<lparr>use_mp = 1, pgo = False\<rparr> 0 [] NoResult orchestrator_init =
      (None, orchestrator_init\<lparr>finished := 1\<rparr>)"
proof -
  have c: "run_test_in_subprocess example_externals ''test_silent'' = Inr (0, [], [])"
    by (simp add: example_externals_def example_child_def)
  have l: "last_line [] = []" by code_simp
  show ?thesis
    using no_result_ends_loop [OF c l, of "\<lparr>pending = MultiprocessIterator_init [''test_silent'', ''test_pass''], output_queue = []\<rparr>" "[''test_pass'']" thread_init "\<lparr>use_mp = 1, pgo = False\<rparr>" 0 "[]" orchestrator_init]
    by (simp add: MultiprocessIterator_init_def thread_init_def example_externals_def orchestrator_init_def)
qed




section \<open>The orchestrator\<close>

lemma drain_timeout_frame:
  "accumulated (drain_timeout E ns now ws st) = accumulated st"
  "finished (drain_timeout E ns now ws st) = finished st"
  "test_index (drain_timeout E ns now ws st) = test_index st"
  "regrtest_interrupted (drain_timeout E ns now ws st) = regrtest_interrupted st"
  "displayed (drain_timeout E ns now ws st) = displayed st"
  "printed_err (drain_timeout E ns now ws st) = printed_err st"
  by (simp_all add: drain_timeout_def print_def Let_def)

lemma get_running_filter:
  "get_running E now ws =
     map (\<lambda>w. the (current_test w) @ '' ('' @ format_0f E (now - start_time w) @ '' sec)'')
       (filter (\<lambda>w. case current_test w of
                       None \<Rightarrow> False
                     | Some ct \<Rightarrow> ct \<noteq> [] \<and> now - start_time w \<ge> PROGRESS_MIN_TIME) ws)"
  by (induction ws) (simp_all add: Let_def split: option.splits)

text \<open>
  Claim C9. When \<^verbatim>\<open>output.get\<close> times out (the step \<open>Timeout\<close>, enabled while the loop
  runs and the output queue is empty), the orchestrator prints at most one line, the
  list of the running units that \<^verbatim>\<open>get_running\<close> returns (those dispatched at least
  \<^verbatim>\<open>PROGRESS_MIN_TIME\<close> seconds ago), and only when it is not empty and \<^verbatim>\<open>pgo\<close> is off.
  The accumulator, \<^verbatim>\<open>finished\<close>, \<^verbatim>\<open>test_index\<close> and everything else the orchestrator
  owns, the two queues and the workers are unchanged, and the loop goes on.
\<close>

theorem timeout_is_liveness_probe:
  assumes "step E ns (Timeout now) s = Some s'"
  shows "printed (regrtest s') =
           printed (regrtest s) @
             (if get_running E now (workers s) \<noteq> [] \<and> \<not> pgo ns
              then [''running: '' @ join_comma (get_running E now (workers s))] else [])
    \<and> accumulated (regrtest s') = accumulated (regrtest s)
    \<and> finished (regrtest s') = finished (regrtest s)
    \<and> test_index (regrtest s') = test_index (regrtest s)
    \<and> regrtest_interrupted (regrtest s') = regrtest_interrupted (regrtest s)
    \<and> displayed (regrtest s') = displayed (regrtest s)
    \<and> printed_err (regrtest s') = printed_err (regrtest s)
    \<and> queues s' = queues s \<and> workers s' = workers s \<and> phase s' = Draining"
proof -
  from assms have d: "phase s = Draining"
    and s': "s' = s\<lparr>regrtest := drain_timeout E ns now (workers s) (regrtest s)\<rparr>"
    by (auto simp: step_def split: if_splits)
  show ?thesis
    unfolding s' using d
    by (simp add: drain_timeout_frame) (simp add: drain_timeout_def print_def Let_def)
qed


lemma example_dispatched_reached:
  "exec example_externals example_ns [Claim 0, Claim 1] (start example_ns [''test_crash'', ''test_pass'']) = Some (example_dispatched)"
  by code_simp

theorem timeout_is_liveness_probe_witness:
  "step example_externals example_ns (Timeout 140) example_dispatched =
      Some (example_dispatched\<lparr>regrtest := orchestrator_init\<lparr>printed := [''running: test_crash (40 sec)'']\<rparr>\<rparr>)
   \<and> printed (regrtest (example_dispatched\<lparr>regrtest := orchestrator_init\<lparr>printed := [''running: test_crash (40 sec)'']\<rparr>\<rparr>)) = [''running: test_crash (40 sec)'']
   \<and> accumulated (regrtest (example_dispatched\<lparr>regrtest := orchestrator_init\<lparr>printed := [''running: test_crash (40 sec)'']\<rparr>\<rparr>)) = []"
proof -
  have h: "step example_externals example_ns (Timeout 140) example_dispatched =
      Some (example_dispatched\<lparr>regrtest := orchestrator_init\<lparr>printed := [''running: test_crash (40 sec)'']\<rparr>\<rparr>)"
    by code_simp
  show ?thesis
    using timeout_is_liveness_probe [OF h] h
    by (simp add: example_dispatched_def orchestrator_init_def)
qed

subsection \<open>Receiving an item\<close>

lemma drain_item_child_error:
  "drain_item E ns now ws (Item test stdout stderr (CHILD_ERROR, v)) st =
     (Some (Exception (''Child error on '' @ test @ '': '' @ format_pyval E v)),
      snd (drain_item E ns now ws (Item test stdout stderr (CHILD_ERROR, v)) st))"
  by (simp add: drain_item_def Let_def CHILD_ERROR_def INTERRUPTED_def split: pyval.splits)


lemma drain_item_accumulated:
  "accumulated (snd (drain_item E ns now ws (Item test stdout stderr result) st)) =
     accumulated st @ [(test, result)]"
  by (simp add: drain_item_def Let_def accumulate_result_def display_progress_def print_def
      print_err_def split: prod.splits pyval.splits)



lemma step_Get:
  assumes "phase s = Draining" and "finished (regrtest s) < use_mp ns"
    and "output_queue (queues s) = it # rest"
    and "drain_item E ns now (workers s) it (regrtest s) = (e, st)"
  shows "step E ns (Get now) s =
     (case e of
        None \<Rightarrow> Some (s\<lparr>queues := (queues s)\<lparr>output_queue := rest\<rparr>, regrtest := st\<rparr>)
      | Some KeyboardInterrupt \<Rightarrow>
          Some (on_keyboard_interrupt
                  (s\<lparr>queues := (queues s)\<lparr>output_queue := rest\<rparr>, regrtest := st\<rparr>))
      | Some x \<Rightarrow>
          Some (s\<lparr>queues := (queues s)\<lparr>output_queue := rest\<rparr>, regrtest := st,
                  phase := Raised x\<rparr>))"
  unfolding step_def using assms
  by (simp split: option.split exn.split)

lemma step_after_raise:
  assumes "phase s = Raised x"
  shows "step E ns Join s = None" "step E ns Leave s = None"
    "step E ns (Get now) s = None" "step E ns (Timeout now) s = None"
  using assms by (simp_all add: step_def)


text \<open>
  Claim C4, as stated, fails on the code: \<^verbatim>\<open>raise Exception(msg)\<close> of line 212 is inside a
  \<^verbatim>\<open>try\<close> whose only handler is for \<^verbatim>\<open>KeyboardInterrupt\<close>, and the \<^verbatim>\<open>join\<close> loop of lines 223
  and 224 is after the statement, not in a \<^verbatim>\<open>finally\<close>. In the run below the error has left
  the function while the second worker is alive and waits for the child of
  \<^verbatim>\<open>test_pass\<close>.
\<close>

theorem child_error_raised_before_join:
  "exec example_externals example_ns [Claim 0, Claim 1, Complete 0, Get 140]
     (start example_ns [''test_crash'', ''test_pass'']) =
   Some \<lparr>queues = \<lparr>pending = \<lparr>interrupted = False, tests = []\<rparr>, output_queue = []\<rparr>,
         workers = [\<lparr>current_test = None, start_time = 100, alive = False\<rparr>,
                    \<lparr>current_test = Some ''test_pass'', start_time = 120, alive = True\<rparr>],
         regrtest =
           \<lparr>accumulated = [(''test_crash'', CHILD_ERROR, Str ''Exit code 1'')],
            finished = 0, test_index = 1, regrtest_interrupted = False,
            displayed = [(1, ''test_crash'')], printed = [], printed_err = [''Fatal'']\<rparr>,
         phase = Raised (Exception ''Child error on test_crash: Exit code 1'')\<rparr>"
  by code_simp


text \<open>
  Claim C4, amended. When the orchestrator receives a \<^verbatim>\<open>CHILD_ERROR\<close> outcome, it first
  records it in the accumulator and then raises an exception whose message names the
  unit and the diagnostic (\<^verbatim>\<open>Child error on <unit>: <diagnostic>\<close>). The exception leaves
  \<^verbatim>\<open>run_tests_multiprocess\<close> at once: the orchestrator takes no further step, so it
  neither drains the queue any more nor joins the workers, which are left as they are.
\<close>

theorem child_error_is_fatal:
  assumes "phase s = Draining" and "finished (regrtest s) < use_mp ns"
    and "output_queue (queues s) = Item test stdout stderr (CHILD_ERROR, v) # rest"
  shows "\<exists>s'. step E ns (Get now) s = Some s'
      \<and> accumulated (regrtest s') = accumulated (regrtest s) @ [(test, CHILD_ERROR, v)]
      \<and> phase s' = Raised (Exception (''Child error on '' @ test @ '': '' @ format_pyval E v))
      \<and> workers s' = workers s
      \<and> step E ns Join s' = None \<and> step E ns Leave s' = None
      \<and> step E ns (Get later) s' = None \<and> step E ns (Timeout later) s' = None"
proof -
  define it where "it = Item test stdout stderr (CHILD_ERROR, v)"
  define st where "st = snd (drain_item E ns now (workers s) it (regrtest s))"
  define x where "x = Exception (''Child error on '' @ test @ '': '' @ format_pyval E v)"
  define s' where
    "s' = s\<lparr>queues := (queues s)\<lparr>output_queue := rest\<rparr>, regrtest := st, phase := Raised x\<rparr>"
  have d: "drain_item E ns now (workers s) it (regrtest s) = (Some x, st)"
    unfolding it_def st_def x_def by (rule drain_item_child_error)
  have q: "output_queue (queues s) = it # rest"
    using assms(3) by (simp add: it_def)
  have 1: "step E ns (Get now) s = Some s'"
    unfolding step_Get [OF assms(1,2) q d] s'_def x_def by simp
  have 2: "accumulated (regrtest s') = accumulated (regrtest s) @ [(test, CHILD_ERROR, v)]"
    unfolding s'_def st_def it_def by (simp add: drain_item_accumulated)
  have 3: "phase s' = Raised x" "workers s' = workers s"
    unfolding s'_def by simp_all
  note 4 = step_after_raise [OF 3(1)]
  show ?thesis
    using 1 2 3 4 unfolding x_def by blast
qed




lemma example_crashed_reached:
  "exec example_externals example_ns [Complete 0] example_dispatched = Some example_crashed"
  by code_simp

theorem child_error_is_fatal_witness:
  "step example_externals example_ns (Get 155) example_crashed =
     Some (example_crashed
       \<lparr>queues := \<lparr>pending = \<lparr>interrupted = False, tests = []\<rparr>, output_queue = []\<rparr>,
        regrtest :=
           \<lparr>accumulated = [(''test_crash'', CHILD_ERROR, Str ''Exit code 1'')],
            finished = 0, test_index = 1, regrtest_interrupted = False,
            displayed = [(1, ''test_crash -- running: test_pass (35 sec)'')],
            printed = [], printed_err = [''Fatal'']\<rparr>,
        phase := Raised (Exception ''Child error on test_crash: Exit code 1'')\<rparr>)
   \<and> step example_externals example_ns Join (example_crashed
       \<lparr>queues := \<lparr>pending = \<lparr>interrupted = False, tests = []\<rparr>, output_queue = []\<rparr>,
        regrtest :=
           \<lparr>accumulated = [(''test_crash'', CHILD_ERROR, Str ''Exit code 1'')],
            finished = 0, test_index = 1, regrtest_interrupted = False,
            displayed = [(1, ''test_crash -- running: test_pass (35 sec)'')],
            printed = [], printed_err = [''Fatal'']\<rparr>,
        phase := Raised (Exception ''Child error on test_crash: Exit code 1'')\<rparr>) = None"
proof -
  have p: "phase example_crashed = Draining" by (simp add: example_crashed_def)
  have f: "finished (regrtest example_crashed) < use_mp example_ns"
    by (simp add: example_crashed_def orchestrator_init_def example_ns_def)
  have q: "output_queue (queues example_crashed) =
      Item ''test_crash'' [] ''Fatal'' (CHILD_ERROR, Str ''Exit code 1'') # []"
    by (simp add: example_crashed_def)
  have e: "step example_externals example_ns (Get 155) example_crashed =
     Some (example_crashed
       \<lparr>queues := \<lparr>pending = \<lparr>interrupted = False, tests = []\<rparr>, output_queue = []\<rparr>,
        regrtest :=
           \<lparr>accumulated = [(''test_crash'', CHILD_ERROR, Str ''Exit code 1'')],
            finished = 0, test_index = 1, regrtest_interrupted = False,
            displayed = [(1, ''test_crash -- running: test_pass (35 sec)'')],
            printed = [], printed_err = [''Fatal'']\<rparr>,
        phase := Raised (Exception ''Child error on test_crash: Exit code 1'')\<rparr>)"
    by code_simp
  from child_error_is_fatal [OF p f q, of example_externals 155 0]
  obtain s' where s': "step example_externals example_ns (Get 155) example_crashed = Some s'"
    and j: "step example_externals example_ns Join s' = None"
    by blast
  from s' e j show ?thesis by simp
qed

subsection \<open>The steps, one by one\<close>






lemma orchestrator_frame [simp]:
  "accumulated (print l st) = accumulated st" "finished (print l st) = finished st"
  "accumulated (print_err l st) = accumulated st" "finished (print_err l st) = finished st"
  "accumulated (display_progress k l st) = accumulated st"
  "finished (display_progress k l st) = finished st"
  "accumulated (waiting_message ws st) = accumulated st"
  "finished (waiting_message ws st) = finished st"
  "regrtest_interrupted (print l st) = regrtest_interrupted st"
  "regrtest_interrupted (waiting_message ws st) = regrtest_interrupted st"
  by (simp_all add: print_def print_err_def display_progress_def waiting_message_def Let_def)

lemma on_keyboard_interrupt_simps [simp]:
  "workers (on_keyboard_interrupt s) = workers s"
  "phase (on_keyboard_interrupt s) = Joining"
  "output_queue (queues (on_keyboard_interrupt s)) = output_queue (queues s)"
  "tests (pending (queues (on_keyboard_interrupt s))) = tests (pending (queues s))"
  "interrupted (pending (queues (on_keyboard_interrupt s)))"
  "accumulated (regrtest (on_keyboard_interrupt s)) = accumulated (regrtest s)"
  "finished (regrtest (on_keyboard_interrupt s)) = finished (regrtest s)"
  "regrtest_interrupted (regrtest (on_keyboard_interrupt s))"
  by (simp_all add: on_keyboard_interrupt_def Let_def)












subsection \<open>After an interrupt\<close>





lemma example_interrupt_published_reached:
  "exec example_externals example_single [Claim 0, Complete 0]
     (start example_single [''test_interrupt'', ''test_pass'']) = Some example_interrupt_published"
  by code_simp




section \<open>The child\<close>

lemma slave_result_other:
  "e \<noteq> KeyboardInterrupt \<Longrightarrow> slave_result (Inl e) = (CHILD_ERROR, Str (exn_str e))"
  by (cases e) simp_all

text \<open>
  Claim C8, as stated, fails on the code: when the unit executor raises
  \<^verbatim>\<open>KeyboardInterrupt\<close>, the child entry point reports \<^verbatim>\<open>(INTERRUPTED, '')\<close>, whose second
  component is the empty string and not a number.
\<close>

theorem interrupted_has_no_duration:
  "slave_result (runtest_inner RaisesKeyboardInterrupt) = (INTERRUPTED, Str [])
   \<and> \<not> is_numeric (snd (slave_result (runtest_inner RaisesKeyboardInterrupt)))"
  by simp

text \<open>
  Claim C8, amended. The seven kinds are distinct, and every result record is a pair of
  a kind and one more component. What \<^verbatim>\<open>runtest_inner\<close> returns has one of the kinds
  \<^verbatim>\<open>PASSED\<close>, \<^verbatim>\<open>FAILED\<close>, \<^verbatim>\<open>ENV_CHANGED\<close>, \<^verbatim>\<open>SKIPPED\<close>, \<^verbatim>\<open>RESOURCE_DENIED\<close> and a numeric
  duration, which is 0.0 unless the test ran to its end; the only exception it lets
  through is \<^verbatim>\<open>KeyboardInterrupt\<close>. The records with the two other kinds carry a string
  in the place of the duration and no duration at all: \<^verbatim>\<open>INTERRUPTED\<close> the empty string,
  \<^verbatim>\<open>CHILD_ERROR\<close> the diagnostic (the text of the exception in the child entry point,
  \<^verbatim>\<open>Exit code N\<close> in the worker).
\<close>

theorem outcome_record_shapes:
  "distinct [PASSED, FAILED, ENV_CHANGED, SKIPPED, RESOURCE_DENIED, INTERRUPTED, CHILD_ERROR]
   \<and> (case runtest_inner b of
        Inr (ok, v) \<Rightarrow>
          ok \<in> {PASSED, FAILED, ENV_CHANGED, SKIPPED, RESOURCE_DENIED} \<and> is_numeric v
          \<and> ((\<exists>r c d. b = Completes r c d) \<or> v = Num 0)
      | Inl e \<Rightarrow> e = KeyboardInterrupt)
   \<and> slave_result (Inl KeyboardInterrupt) = (INTERRUPTED, Str [])
   \<and> (e \<noteq> KeyboardInterrupt \<longrightarrow> slave_result (Inl e) = (CHILD_ERROR, Str (exn_str e)))
   \<and> (retcode \<noteq> 0 \<longrightarrow>
        (\<exists>so se. publish E t (retcode, stdout, stderr) =
           Inr (Item t so se (CHILD_ERROR, Str (''Exit code '' @ str_int retcode)), True)))"
proof -
  have 1: "distinct [PASSED, FAILED, ENV_CHANGED, SKIPPED, RESOURCE_DENIED, INTERRUPTED, CHILD_ERROR]"
    by (simp add: status_defs)
  have 2: "case runtest_inner b of
        Inr (ok, v) \<Rightarrow>
          ok \<in> {PASSED, FAILED, ENV_CHANGED, SKIPPED, RESOURCE_DENIED} \<and> is_numeric v
          \<and> ((\<exists>r c d. b = Completes r c d) \<or> v = Num 0)
      | Inl e \<Rightarrow> e = KeyboardInterrupt"
    by (cases b) auto
  have 3: "slave_result (Inl KeyboardInterrupt) = (INTERRUPTED, Str [])" by simp
  note 4 = slave_result_other [of e]
  have 5: "\<exists>so se. publish E t (retcode, stdout, stderr) =
           Inr (Item t so se (CHILD_ERROR, Str (''Exit code '' @ str_int retcode)), True)"
    if "retcode \<noteq> 0"
    using publish_nonzero [OF that, of E t stdout stderr] by blast
  show ?thesis using 1 2 3 4 5 by blast
qed

theorem outcome_record_shapes_witness:
  "runtest_inner (Completes False True 2.5) = Inr (ENV_CHANGED, Num 2.5)
   \<and> runtest_inner RaisesSkipTest = Inr (SKIPPED, Num 0)
   \<and> slave_result (Inl (Exception ''boom'')) = (CHILD_ERROR, Str ''boom'')
   \<and> publish example_externals ''test_crash'' (1, ''boom'', ''Fatal'') =
        Inr (Item ''test_crash'' [] ''Fatal'' (CHILD_ERROR, Str ''Exit code 1''), True)"
proof -
  have p: "publish example_externals ''test_crash'' (1, ''boom'', ''Fatal'') =
        Inr (Item ''test_crash'' [] ''Fatal'' (CHILD_ERROR, Str ''Exit code 1''), True)"
    by code_simp
  from outcome_record_shapes [of "Completes False True 2.5" "Exception ''boom''" 1
      example_externals "''test_crash''" "''boom''" "''Fatal''"]
  have "slave_result (Inl (Exception ''boom'')) = (CHILD_ERROR, Str (exn_str (Exception ''boom'')))"
    by simp
  then show ?thesis using p by simp
qed



section \<open>Runs without interruption\<close>






lemma item_tests_append [simp]: "item_tests (xs @ ys) = item_tests xs @ item_tests ys"
  by (induction xs rule: item_tests.induct) auto










































end
